theory Spec2Isabelle
  imports Main
begin

section \<open>Common Go notions\<close>

text \<open>
  A Go panic is modelled as a value carrying the panic message; a function that can
  panic returns \<open>panic + 'a\<close> (\<open>Inl\<close> the panic). The run-time panic of a nil
  pointer dereference carries the run-time's message.
\<close>

datatype panic = Panic string

definition nil_dereference :: panic where
  "nil_dereference = Panic ''runtime error: invalid memory address or nil pointer dereference''"

text \<open>
  Values of Go's \<open>error\<close> interface that the code meets: errors made by
  \<open>errors.New\<close> / \<open>fmt.Errorf\<close> (their text), the end-of-file error of a read, the
  "no such file or directory" error of the operating system, and any other operating
  system error (named by its text).
\<close>

datatype go_error = ErrorsNew string | EOF | ENOENT | OsError string

text \<open>\<open>os.IsNotExist\<close>.\<close>

fun IsNotExist :: "go_error \<Rightarrow> bool" where
  "IsNotExist ENOENT = True"
| "IsNotExist _ = False"

text \<open>The verb \<open>%d\<close> of \<open>fmt\<close> on an unsigned number: its decimal digits.\<close>

definition digit :: "nat \<Rightarrow> char" where
  "digit n = ''0123456789'' ! n"

fun dec :: "nat \<Rightarrow> string" where
  "dec n = (if n < 10 then [digit n] else dec (n div 10) @ [digit (n mod 10)])"

declare dec.simps [simp del]

section \<open>The virtual pins of gpio\_fake.go\<close>

text \<open>
  Modelled from the spec: the constants \<open>IN\<close> and \<open>OUT\<close> are declared in a file of the
  package that is not among the sources at hand. The spec gives the direction as an
  enumeration of two values, INPUT and OUTPUT; they are taken as two different
  integers. The proofs below use nothing but \<open>IN \<noteq> OUT\<close>.
\<close>

definition IN :: int where "IN = 0"
definition OUT :: int where "OUT = 1"

text \<open>
  A \<open>*FakeGPIO\<close> is an address or nil (\<open>None\<close>); a \<open>*log.Logger\<close> is the package's
  default logger, a logger of the caller's, or nil.
\<close>

type_synonym addr = nat

datatype logger = FakeGPIODefaultLogTarget | Logger nat

text \<open>
  The struct. \<open>connectedTo\<close> is a slice of pointers: \<open>None\<close> is the nil slice,
  \<open>Some xs\<close> a slice with the elements \<open>xs\<close>, each an address or nil.
\<close>

record FakeGPIO =
  name :: string
  dir :: int
  value_f :: bool
  logTarget :: "logger option"
  connectedTo :: "addr option list option"

text \<open>
  An argument handed to \<open>Printf\<close>, and one call of \<open>Printf\<close>: the logger, the format
  string and the arguments. The text that \<open>Printf\<close> renders from them is not modelled.
\<close>

datatype arg = AString string | ABool bool

type_synonym printf_call = "logger \<times> string \<times> arg list"

text \<open>
  The part of the program state the virtual pins live in: the objects by address, the
  next address \<open>new\<close> hands out, and the calls of \<open>Printf\<close> made so far.
\<close>

record world =
  heap :: "addr \<Rightarrow> FakeGPIO"
  next_addr :: addr
  printed :: "printf_call list"

definition set_value :: "addr \<Rightarrow> bool \<Rightarrow> world \<Rightarrow> world" where
  "set_value p state w = w\<lparr>heap := (heap w)(p := (heap w p)\<lparr>value_f := state\<rparr>)\<rparr>"

definition set_connectedTo :: "addr \<Rightarrow> addr option list option \<Rightarrow> world \<Rightarrow> world" where
  "set_connectedTo p conn w = w\<lparr>heap := (heap w)(p := (heap w p)\<lparr>connectedTo := conn\<rparr>)\<rparr>"

definition set_dir :: "addr \<Rightarrow> int \<Rightarrow> world \<Rightarrow> world" where
  "set_dir p direction w = w\<lparr>heap := (heap w)(p := (heap w p)\<lparr>dir := direction\<rparr>)\<rparr>"

text \<open>\<open>func (gpio *FakeGPIO) log(fmt string, attr ...interface{})\<close>, on a non-nil receiver.\<close>

definition dir_text :: "int \<Rightarrow> string" where
  "dir_text d = (if d = OUT then ''OUT'' else ''IN'')"

definition log :: "addr \<Rightarrow> string \<Rightarrow> arg list \<Rightarrow> world \<Rightarrow> world" where
  "log p fmt attr w =
     (let logT = (case logTarget (heap w p) of
                    None \<Rightarrow> FakeGPIODefaultLogTarget
                  | Some l \<Rightarrow> l);
          d = dir_text (dir (heap w p))
      in w\<lparr>printed := printed w @
             [(logT, ''FakeGPIO %s(%s): '' @ fmt,
               [AString (name (heap w p)), AString d] @ attr)]\<rparr>)"

text \<open>\<open>NewFakeNamedGPIO\<close> and \<open>NewFakeGPIO\<close>: a new object, and its address.\<close>

definition NewFakeNamedGPIO ::
  "string \<Rightarrow> int \<Rightarrow> logger option \<Rightarrow> world \<Rightarrow> addr option \<times> world" where
  "NewFakeNamedGPIO nm direction lt w =
     (Some (next_addr w),
      w\<lparr>heap := (heap w)(next_addr w :=
           \<lparr>name = nm, dir = direction, value_f = False, logTarget = lt,
            connectedTo = None\<rparr>),
        next_addr := Suc (next_addr w)\<rparr>)"

definition NewFakeGPIO :: "nat \<Rightarrow> int \<Rightarrow> world \<Rightarrow> addr option \<times> world" where
  "NewFakeGPIO gpionum direction w =
     NewFakeNamedGPIO (''FakeGPIO('' @ dec gpionum @ '')'') direction None w"

text \<open>\<open>CheckDirection\<close>, \<open>SetDirection\<close> and \<open>GetState\<close>.\<close>

fun CheckDirection :: "addr option \<Rightarrow> world \<Rightarrow> panic + (int \<times> go_error option)" where
  "CheckDirection None w = Inl nil_dereference"
| "CheckDirection (Some p) w = Inr (dir (heap w p), None)"

fun SetDirection :: "addr option \<Rightarrow> int \<Rightarrow> world \<Rightarrow> (panic + go_error option) \<times> world" where
  "SetDirection gpio direction w =
     (if \<not> (direction = IN \<or> direction = OUT)
      then (Inl (Panic ''direction neither IN nor OUT''), w)
      else (case gpio of
              None \<Rightarrow> (Inl nil_dereference, w)
            | Some p \<Rightarrow> (Inr None, set_dir p direction w)))"

fun GetState :: "addr option \<Rightarrow> world \<Rightarrow> panic + (bool \<times> go_error option)" where
  "GetState None w = Inl nil_dereference"
| "GetState (Some p) w = Inr (value_f (heap w p), None)"

text \<open>\<open>FakeInput\<close>.\<close>

fun FakeInput :: "addr option \<Rightarrow> bool \<Rightarrow> world \<Rightarrow> (panic + go_error option) \<times> world" where
  "FakeInput None state w = (Inl (Panic ''gpio == nil''), w)"
| "FakeInput (Some p) state w =
     (if dir (heap w p) = IN
      then (Inr None, set_value p state (log p ''faking input >%+v<'' [ABool state] w))
      else (Inl (Panic ''tried to fake input for output gpio''), w))"

text \<open>
  \<open>SetState\<close>. The loop over \<open>gpio.connectedTo\<close> skips nil elements and calls
  \<open>FakeInput\<close> on the others, in order; a panic of \<open>FakeInput\<close> ends the loop and the
  call, and keeps what was written before it.
\<close>

fun SetState_range ::
  "addr option list \<Rightarrow> bool \<Rightarrow> world \<Rightarrow> (panic + go_error option) \<times> world" where
  "SetState_range [] state w = (Inr None, w)"
| "SetState_range (None # rest) state w = SetState_range rest state w"
| "SetState_range (Some othergpio # rest) state w =
     (case FakeInput (Some othergpio) state w of
        (Inl pn, w') \<Rightarrow> (Inl pn, w')
      | (Inr _, w') \<Rightarrow> SetState_range rest state w')"

fun SetState :: "addr option \<Rightarrow> bool \<Rightarrow> world \<Rightarrow> (panic + go_error option) \<times> world" where
  "SetState None state w = (Inl (Panic ''gpio == nil''), w)"
| "SetState (Some p) state w =
     (if dir (heap w p) = OUT
      then (let w1 = set_value p state (log p ''set to state >%+v<'' [ABool state] w)
            in case connectedTo (heap w1 p) of
                 None \<Rightarrow> (Inr None, w1)
               | Some conn \<Rightarrow> SetState_range conn state w1)
      else (Inl (Panic ''tried to set state on IN gpio''), w))"

text \<open>\<open>Close\<close>: the assignment \<open>gpio = nil\<close> changes the method's own copy of the receiver.\<close>

definition Close :: "addr option \<Rightarrow> world \<Rightarrow> world" where
  "Close gpio w = (let gpio' = (None :: addr option) in w)"

text \<open>
  \<open>ConnectTo\<close>. The loop builds the text \<open>gpionames\<close> from the non-nil elements; the
  text is then the format string of the call of \<open>log\<close>.
\<close>

fun ConnectTo_range :: "addr option list \<Rightarrow> world \<Rightarrow> string \<Rightarrow> string" where
  "ConnectTo_range [] w gpionames = gpionames"
| "ConnectTo_range (None # rest) w gpionames = ConnectTo_range rest w gpionames"
| "ConnectTo_range (Some othergpio # rest) w gpionames =
     ConnectTo_range rest w
       (gpionames @ '' '' @ name (heap w othergpio) @ ''('' @
          (if dir (heap w othergpio) = OUT then ''OUT'' else ''IN'') @ '')'')"

fun ConnectTo :: "addr option \<Rightarrow> addr option list option \<Rightarrow> world \<Rightarrow> (panic + unit) \<times> world" where
  "ConnectTo None conn w = (Inl nil_dereference, w)"
| "ConnectTo (Some p) conn w =
     (let w1 = set_connectedTo p conn w
      in case connectedTo (heap w1 p) of
           None \<Rightarrow> (Inr (), w1)
         | Some cs \<Rightarrow>
             (Inr (), log p (''now connected to'' @ ConnectTo_range cs w1 []) [] w1))"

section \<open>The kernel's control files, as gpio\_sysfs.go uses them\<close>

text \<open>
  What the operating system answers, by path: the error of \<open>os.Stat\<close>, the error of
  \<open>os.OpenFile\<close>, what a \<open>Read\<close> at offset 0 of the file delivers (an error, or the
  bytes of the file), and the error of a write of a given text. \<open>writes\<close> lists the
  writes issued so far, each with its path and text.
\<close>

record sysfs =
  stat_res :: "string \<Rightarrow> go_error option"
  open_res :: "string \<Rightarrow> go_error option"
  read_res :: "string \<Rightarrow> go_error + string"
  write_res :: "string \<Rightarrow> string \<Rightarrow> go_error option"
  writes :: "(string \<times> string) list"

text \<open>
  \<open>buf := make([]byte, 16); n, err = f.Read(buf)\<close>: the count, the error and the
  buffer after the call. A failed read is taken to deliver no byte.
\<close>

fun Read16 :: "go_error + string \<Rightarrow> nat \<times> go_error option \<times> string" where
  "Read16 (Inl e) = (0, Some e, replicate 16 (CHR 0x00))"
| "Read16 (Inr bytes) =
     (length (take 16 bytes), None,
      take 16 bytes @ replicate (16 - length bytes) (CHR 0x00))"

text \<open>
  The struct: the pin number, and the open value file (\<open>None\<close> is the nil
  \<open>*os.File\<close>, \<open>Some path\<close> the file opened at \<open>path\<close>). The methods below only read
  the struct, so a receiver is the struct or nil.
\<close>

record SysfsGPIO =
  Number :: nat
  fd :: "string option"

definition gpio_path :: "nat \<Rightarrow> string" where
  "gpio_path n = ''/sys/class/gpio/gpio'' @ dec n"

definition export_path :: string where
  "export_path = ''/sys/class/gpio/export''"

text \<open>\<open>func (gpio *SysfsGPIO) enable_export() error\<close>.\<close>

fun enable_export :: "SysfsGPIO option \<Rightarrow> sysfs \<Rightarrow> (panic + go_error option) \<times> sysfs" where
  "enable_export None fs = (Inl (Panic ''gpio == nil''), fs)"
| "enable_export (Some gpio) fs =
     (case stat_res fs (gpio_path (Number gpio)) of
        None \<Rightarrow> (Inr None, fs)
      | Some err \<Rightarrow>
          if \<not> IsNotExist err then (Inr (Some err), fs)
          else (case open_res fs export_path of
                  Some err' \<Rightarrow> (Inr (Some err'), fs)
                | None \<Rightarrow>
                    (let line = dec (Number gpio) @ [CHR 0x0A]
                     in (Inr (write_res fs export_path line),
                         fs\<lparr>writes := writes fs @ [(export_path, line)]\<rparr>))))"

text \<open>\<open>func (gpio *SysfsGPIO) CheckDirection() (direction int, err error)\<close>.\<close>

fun SysfsGPIO_CheckDirection :: "SysfsGPIO option \<Rightarrow> sysfs \<Rightarrow> panic + (int \<times> go_error option)" where
  "SysfsGPIO_CheckDirection None fs = Inl (Panic ''gpio == nil'')"
| "SysfsGPIO_CheckDirection (Some gpio) fs =
     (let filename = gpio_path (Number gpio) @ ''/direction''
      in case open_res fs filename of
           Some err \<Rightarrow> Inr (- 1, Some err)
         | None \<Rightarrow>
             (case Read16 (read_res fs filename) of
                (n, Some err, buf) \<Rightarrow> Inr (- 1, Some err)
              | (n, None, buf) \<Rightarrow>
                  if n = 0 then Inr (- 1, Some (ErrorsNew ''wtf ?''))
                  else if take 2 buf = ''in'' then Inr (IN, None)
                  else if take 3 buf = ''out'' then Inr (OUT, None)
                  else Inr (- 1, Some (ErrorsNew
                         (''direction '' @ [CHR 0x27] @ buf @ [CHR 0x27] @
                          '' is neither in nor out !!!'')))))"

text \<open>
  \<open>func (gpio *SysfsGPIO) GetEdge() (edge string, err error)\<close>. An empty read sets
  the error and goes on to the comparisons, which may set it again.
\<close>

fun GetEdge :: "SysfsGPIO option \<Rightarrow> sysfs \<Rightarrow> panic + (string \<times> go_error option)" where
  "GetEdge None fs = Inl (Panic ''gpio == nil'')"
| "GetEdge (Some gpio) fs =
     (let filename = gpio_path (Number gpio) @ ''/edge''
      in case open_res fs filename of
           Some err \<Rightarrow> Inr ([], Some err)
         | None \<Rightarrow>
             (case Read16 (read_res fs filename) of
                (n, Some err, buf) \<Rightarrow> Inr ([], Some err)
              | (n, None, buf) \<Rightarrow>
                  (let err = (if n = 0 then Some (ErrorsNew ''Edge file is empty'') else None)
                   in if take 4 buf = ''none'' then Inr (''none'', err)
                      else if take 4 buf = ''both'' then Inr (''both'', err)
                      else if take 6 buf = ''rising'' then Inr (''rising'', err)
                      else if take 7 buf = ''falling'' then Inr (''falling'', err)
                      else Inr ([], Some (ErrorsNew ''Invalid edge state'')))))"


text \<open>
  \<open>SetEdgeCallback\<close>, up to the \<open>go\<close> statement: the error returned, and whether the
  background task has been started.
\<close>

fun SetEdgeCallback :: "SysfsGPIO option \<Rightarrow> sysfs \<Rightarrow> panic + (go_error option \<times> bool)" where
  "SetEdgeCallback None fs = Inl (Panic ''gpio == nil'')"
| "SetEdgeCallback (Some gpio) fs =
     (case GetEdge (Some gpio) fs of
        Inl pn \<Rightarrow> Inl pn
      | Inr (edge, Some err) \<Rightarrow> Inr (Some err, False)
      | Inr (edge, None) \<Rightarrow>
          if edge = ''none'' then Inr (Some (ErrorsNew ''Edge value is set to NONE''), False)
          else Inr (None, True))"








section \<open>Configurations for the examples\<close>

text \<open>No pin yet: every address holds the zero value of the struct.\<close>

definition no_pins :: world where
  "no_pins =
     \<lparr>heap = (\<lambda>a. \<lparr>name = [], dir = 0, value_f = False, logTarget = None,
                    connectedTo = None\<rparr>),
      next_addr = 0, printed = []\<rparr>"

text \<open>
  Three pins: the output \<open>FakeGPIO(7)\<close> at address 0, the inputs \<open>a\<close> and \<open>b\<close> at
  addresses 1 and 2.
\<close>

definition three_pins :: world where
  "three_pins =
     snd (NewFakeNamedGPIO ''b'' IN None
       (snd (NewFakeNamedGPIO ''a'' IN None
         (snd (NewFakeGPIO 7 OUT no_pins)))))"

text \<open>Two outputs, at addresses 0 and 1.\<close>

definition two_outputs :: world where
  "two_outputs =
     snd (NewFakeNamedGPIO ''q'' OUT None
       (snd (NewFakeNamedGPIO ''p'' OUT None no_pins)))"

text \<open>
  The three pins with the output wired to the input \<open>a\<close> and \<open>a\<close> wired to \<open>b\<close>.
\<close>

definition relay_pins :: world where
  "relay_pins =
     snd (ConnectTo (Some 1) (Some [Some 2])
       (snd (ConnectTo (Some 0) (Some [Some 1]) three_pins)))"

text \<open>
  The three pins with the output wired to both inputs and \<open>a\<close> wired to \<open>b\<close>.
\<close>

definition shared_target_pins :: world where
  "shared_target_pins =
     snd (ConnectTo (Some 1) (Some [Some 2])
       (snd (ConnectTo (Some 0) (Some [Some 1, Some 2]) three_pins)))"

text \<open>
  Control files of pin 7: its directory exists and every file opens; the direction file
  reads as given, the edge file as given, the value file as given.
\<close>

definition pin7_files :: "string \<Rightarrow> string \<Rightarrow> string \<Rightarrow> sysfs" where
  "pin7_files direction edge val =
     \<lparr>stat_res = (\<lambda>path. None),
      open_res = (\<lambda>path. None),
      read_res = (\<lambda>path.
         if path = ''/sys/class/gpio/gpio7/direction'' then Inr (direction @ [CHR 0x0A])
         else if path = ''/sys/class/gpio/gpio7/edge'' then Inr (edge @ [CHR 0x0A])
         else if path = ''/sys/class/gpio/gpio7/value'' then Inr (val @ [CHR 0x0A])
         else Inl EOF),
      write_res = (\<lambda>path line. None),
      writes = []\<rparr>"

text \<open>No pin exported: only the export file is there.\<close>

definition nothing_exported :: sysfs where
  "nothing_exported =
     \<lparr>stat_res = (\<lambda>path. Some ENOENT),
      open_res = (\<lambda>path. if path = ''/sys/class/gpio/export'' then None else Some ENOENT),
      read_res = (\<lambda>path. Inl EOF),
      write_res = (\<lambda>path line. None),
      writes = []\<rparr>"

definition pin7 :: SysfsGPIO where
  "pin7 = \<lparr>Number = 7, fd = Some ''/sys/class/gpio/gpio7/value''\<rparr>"




section \<open>Properties of the virtual pins\<close>

lemma IN_neq_OUT: "IN \<noteq> OUT"
  by (simp add: IN_def OUT_def)

lemma heap_log [simp]: "heap (log p f a w) = heap w"
  by (simp add: log_def Let_def)

lemma heap_set_value [simp]:
  "heap (set_value p s w) = (heap w)(p := (heap w p)\<lparr>value_f := s\<rparr>)"
  by (simp add: set_value_def)

lemma heap_set_connectedTo [simp]:
  "heap (set_connectedTo p c w) = (heap w)(p := (heap w p)\<lparr>connectedTo := c\<rparr>)"
  by (simp add: set_connectedTo_def)

lemma FakeInput_IN:
  "dir (heap w t) = IN \<Longrightarrow>
   FakeInput (Some t) s w = (Inr None, set_value t s (log t ''faking input >%+v<'' [ABool s] w))"
  by simp

lemma FakeInput_not_IN:
  "dir (heap w t) \<noteq> IN \<Longrightarrow>
   FakeInput (Some t) s w = (Inl (Panic ''tried to fake input for output gpio''), w)"
  by simp

lemma SetState_range_dir:
  "dir (heap (snd (SetState_range conn s w)) q) = dir (heap w q)"
proof (induction conn s w rule: SetState_range.induct)
  case (3 othergpio rest state w)
  show ?case
  proof (cases "dir (heap w othergpio) = IN")
    case True
    then show ?thesis using 3 [OF FakeInput_IN [OF True, symmetric]] by simp
  next
    case False
    then show ?thesis by simp
  qed
qed simp_all

lemma SetState_range_connectedTo:
  "connectedTo (heap (snd (SetState_range conn s w)) q) = connectedTo (heap w q)"
proof (induction conn s w rule: SetState_range.induct)
  case (3 othergpio rest state w)
  show ?case
  proof (cases "dir (heap w othergpio) = IN")
    case True
    then show ?thesis using 3 [OF FakeInput_IN [OF True, symmetric]] by simp
  next
    case False
    then show ?thesis by simp
  qed
qed simp_all

lemma SetState_range_frame:
  "Some q \<notin> set conn \<Longrightarrow> heap (snd (SetState_range conn s w)) q = heap w q"
proof (induction conn s w rule: SetState_range.induct)
  case (3 othergpio rest state w)
  show ?case
  proof (cases "dir (heap w othergpio) = IN")
    case True
    then show ?thesis using 3 by simp
  next
    case False
    then show ?thesis by simp
  qed
qed simp_all

lemma SetState_range_ok:
  "(\<And>t. Some t \<in> set conn \<Longrightarrow> dir (heap w t) = IN) \<Longrightarrow>
   fst (SetState_range conn s w) = Inr None \<and>
   (\<forall>t. Some t \<in> set conn \<longrightarrow> value_f (heap (snd (SetState_range conn s w)) t) = s)"
proof (induction conn s w rule: SetState_range.induct)
  case (3 othergpio rest state w)
  have d: "dir (heap w othergpio) = IN" using 3(2) by simp
  let ?w' = "set_value othergpio state (log othergpio ''faking input >%+v<'' [ABool state] w)"
  have ih: "fst (SetState_range rest state ?w') = Inr None \<and>
            (\<forall>t. Some t \<in> set rest \<longrightarrow> value_f (heap (snd (SetState_range rest state ?w')) t) = state)"
    using 3(1) [OF FakeInput_IN [OF d, symmetric]] 3(2) by simp
  have hd: "value_f (heap (snd (SetState_range rest state ?w')) othergpio) = state"
  proof (cases "Some othergpio \<in> set rest")
    case True
    then show ?thesis using ih by blast
  next
    case False
    then show ?thesis by (simp add: SetState_range_frame)
  qed
  show ?case using d ih hd by auto
qed simp_all

lemma SetState_range_panic:
  "Some t \<in> set conn \<Longrightarrow> dir (heap w t) \<noteq> IN \<Longrightarrow>
   fst (SetState_range conn s w) = Inl (Panic ''tried to fake input for output gpio'')"
proof (induction conn s w rule: SetState_range.induct)
  case (3 othergpio rest state w)
  show ?case
  proof (cases "dir (heap w othergpio) = IN")
    case True
    then have "t \<noteq> othergpio" using 3(3) by auto
    then show ?thesis using True 3 by simp
  next
    case False
    then show ?thesis by simp
  qed
qed simp_all


lemma SetState_OUT:
  "dir (heap w p) = OUT \<Longrightarrow>
   SetState (Some p) s w =
     (case connectedTo (heap w p) of
        None \<Rightarrow> (Inr None, set_value p s (log p ''set to state >%+v<'' [ABool s] w))
      | Some conn \<Rightarrow>
          SetState_range conn s (set_value p s (log p ''set to state >%+v<'' [ABool s] w)))"
  by (simp add: Let_def)

subsection \<open>Driving an input pin\<close>

text \<open>
  Claim C3. For every virtual pin whose direction is INPUT, \<open>SetState\<close> fails (it
  panics with the message "tried to set state on IN gpio") and leaves everything as it
  was: the pin's cached state, its direction and its wiring, and every other pin.
\<close>

theorem SetState_on_input_fails:
  "dir (heap w p) = IN \<Longrightarrow>
   SetState (Some p) state w = (Inl (Panic ''tried to set state on IN gpio''), w)"
  using IN_neq_OUT by simp

theorem SetState_on_input_fails_witness:
  "dir (heap three_pins 1) = IN \<and>
   SetState (Some 1) True three_pins = (Inl (Panic ''tried to set state on IN gpio''), three_pins)"
proof -
  have h: "dir (heap three_pins 1) = IN"
    by (simp add: three_pins_def NewFakeNamedGPIO_def NewFakeGPIO_def no_pins_def)
  show ?thesis using h SetState_on_input_fails [OF h, of True] by simp
qed


lemma SetState_dir:
  "dir (heap (snd (SetState gpio s w)) q) = dir (heap w q)"
  by (cases gpio) (simp_all add: Let_def SetState_range_dir split: option.splits)

lemma SetState_connectedTo:
  "connectedTo (heap (snd (SetState gpio s w)) q) = connectedTo (heap w q)"
  by (cases gpio) (simp_all add: Let_def SetState_range_connectedTo split: option.splits)

lemma SetState_frame:
  "q \<noteq> p \<Longrightarrow> (\<And>conn. connectedTo (heap w p) = Some conn \<Longrightarrow> Some q \<notin> set conn) \<Longrightarrow>
   heap (snd (SetState (Some p) s w)) q = heap w q"
  by (simp add: Let_def SetState_range_frame split: option.splits)

lemma SetState_wired:
  assumes "dir (heap w p) = OUT" and "connectedTo (heap w p) = Some conn"
    and "\<And>t. Some t \<in> set conn \<Longrightarrow> dir (heap w t) = IN"
  shows "fst (SetState (Some p) s w) = Inr None"
    and "Some t \<in> set conn \<Longrightarrow> value_f (heap (snd (SetState (Some p) s w)) t) = s"
proof -
  let ?w1 = "set_value p s (log p ''set to state >%+v<'' [ABool s] w)"
  have eq: "SetState (Some p) s w = SetState_range conn s ?w1"
    using assms(1,2) by (simp add: Let_def)
  have dirs: "\<And>t. Some t \<in> set conn \<Longrightarrow> dir (heap ?w1 t) = IN"
    using assms(3) by auto
  show "fst (SetState (Some p) s w) = Inr None"
    using SetState_range_ok [of conn ?w1 s] dirs eq by simp
  show "Some t \<in> set conn \<Longrightarrow> value_f (heap (snd (SetState (Some p) s w)) t) = s"
    using SetState_range_ok [of conn ?w1 s] dirs eq by simp
qed

lemma SetState_unwired:
  assumes "dir (heap w p) = OUT" and "connectedTo (heap w p) = None \<or> connectedTo (heap w p) = Some []"
  shows "SetState (Some p) s w =
           (Inr None, set_value p s (log p ''set to state >%+v<'' [ABool s] w))"
  using assms by (auto simp add: Let_def)

lemma ConnectTo_heap:
  "heap (snd (ConnectTo (Some p) conn w)) = (heap w)(p := (heap w p)\<lparr>connectedTo := conn\<rparr>)"
  by (simp add: Let_def split: option.splits)

lemma ConnectTo_returns: "fst (ConnectTo (Some p) conn w) = Inr ()"
  by (simp add: Let_def split: option.splits)

declare ConnectTo.simps [simp del]

lemmas example_defs =
  no_pins_def three_pins_def two_outputs_def NewFakeNamedGPIO_def NewFakeGPIO_def

subsection \<open>Fan-out to the wired inputs\<close>

text \<open>
  Claim C4. Let \<open>p\<close> be an output pin and \<open>a\<close>, \<open>b\<close> input pins. After
  \<open>p.ConnectTo(a, b)\<close>, the call \<open>p.SetState(true)\<close> returns normally with
  \<open>a.GetState()\<close> and \<open>b.GetState()\<close> both true, and a following
  \<open>p.SetState(false)\<close> returns normally with both false. The values are there when
  \<open>SetState\<close> returns: they are read in the state it returns.
\<close>

theorem wired_inputs_follow_output:
  assumes "dir (heap w p) = OUT" and "dir (heap w a) = IN" and "dir (heap w b) = IN"
  shows "let wired = ConnectTo (Some p) (Some [Some a, Some b]) w;
             high = SetState (Some p) True (snd wired);
             low = SetState (Some p) False (snd high)
         in fst wired = Inr () \<and>
            fst high = Inr None \<and>
            GetState (Some a) (snd high) = Inr (True, None) \<and>
            GetState (Some b) (snd high) = Inr (True, None) \<and>
            fst low = Inr None \<and>
            GetState (Some a) (snd low) = Inr (False, None) \<and>
            GetState (Some b) (snd low) = Inr (False, None)"
proof -
  let ?conn = "[Some a, Some b]"
  let ?w1 = "snd (ConnectTo (Some p) (Some ?conn) w)"
  let ?w2 = "snd (SetState (Some p) True ?w1)"
  let ?w3 = "snd (SetState (Some p) False ?w2)"
  have d1: "\<And>q. dir (heap ?w1 q) = dir (heap w q)"
    by (simp add: ConnectTo_heap)
  have c1: "connectedTo (heap ?w1 p) = Some ?conn"
    by (simp add: ConnectTo_heap)
  have t1: "\<And>t. Some t \<in> set ?conn \<Longrightarrow> dir (heap ?w1 t) = IN"
    using assms(2,3) d1 by auto
  have p1: "dir (heap ?w1 p) = OUT" using assms(1) d1 by simp
  have ok2: "fst (SetState (Some p) True ?w1) = Inr None"
    using SetState_wired(1) [OF p1 c1 t1] by blast
  have a2: "value_f (heap ?w2 a) = True"
    using SetState_wired(2) [OF p1 c1 t1, of a True] by simp
  have b2: "value_f (heap ?w2 b) = True"
    using SetState_wired(2) [OF p1 c1 t1, of b True] by simp
  have p2: "dir (heap ?w2 p) = OUT" using p1 by (simp only: SetState_dir)
  have c2: "connectedTo (heap ?w2 p) = Some ?conn" using c1 by (simp only: SetState_connectedTo)
  have t2: "\<And>t. Some t \<in> set ?conn \<Longrightarrow> dir (heap ?w2 t) = IN"
    using t1 by (simp only: SetState_dir)
  have ok3: "fst (SetState (Some p) False ?w2) = Inr None"
    using SetState_wired(1) [OF p2 c2 t2] by blast
  have a3: "value_f (heap ?w3 a) = False"
    using SetState_wired(2) [OF p2 c2 t2, of a False] by simp
  have b3: "value_f (heap ?w3 b) = False"
    using SetState_wired(2) [OF p2 c2 t2, of b False] by simp
  show ?thesis
    unfolding Let_def GetState.simps
    using ConnectTo_returns [of p "Some ?conn" w] ok2 a2 b2 ok3 a3 b3 by simp
qed

theorem wired_inputs_follow_output_witness:
  "dir (heap three_pins 0) = OUT \<and> dir (heap three_pins 1) = IN \<and>
   dir (heap three_pins 2) = IN \<and>
   (let wired = ConnectTo (Some 0) (Some [Some 1, Some 2]) three_pins;
        high = SetState (Some 0) True (snd wired);
        low = SetState (Some 0) False (snd high)
    in fst wired = Inr () \<and>
       fst high = Inr None \<and>
       GetState (Some 1) (snd high) = Inr (True, None) \<and>
       GetState (Some 2) (snd high) = Inr (True, None) \<and>
       fst low = Inr None \<and>
       GetState (Some 1) (snd low) = Inr (False, None) \<and>
       GetState (Some 2) (snd low) = Inr (False, None))"
proof -
  have h0: "dir (heap three_pins 0) = OUT"
    by (simp add: three_pins_def NewFakeNamedGPIO_def NewFakeGPIO_def no_pins_def)
  have h1: "dir (heap three_pins 1) = IN"
    by (simp add: three_pins_def NewFakeNamedGPIO_def NewFakeGPIO_def no_pins_def)
  have h2: "dir (heap three_pins 2) = IN"
    by (simp add: three_pins_def NewFakeNamedGPIO_def NewFakeGPIO_def no_pins_def)
  show ?thesis using h0 h1 h2 wired_inputs_follow_output [OF h0 h1 h2] by simp
qed

subsection \<open>No cascade through an input\<close>

text \<open>
  The output wired to both \<open>a\<close> and \<open>b\<close>, and \<open>a\<close> wired to \<open>b\<close>: driving the output
  high returns normally and sets \<open>a\<close>, and \<open>b\<close>, which is a target of \<open>a\<close>, goes from
  low to high, written by the direct fan-out of the output. So a target of a driven
  input is not always left as it was.
\<close>

theorem shared_target_is_driven:
  "dir (heap shared_target_pins 0) = OUT \<and>
   connectedTo (heap shared_target_pins 0) = Some [Some 1, Some 2] \<and>
   dir (heap shared_target_pins 1) = IN \<and>
   dir (heap shared_target_pins 2) = IN \<and>
   connectedTo (heap shared_target_pins 1) = Some [Some 2] \<and>
   value_f (heap shared_target_pins 2) = False \<and>
   fst (SetState (Some 0) True shared_target_pins) = Inr None \<and>
   value_f (heap (snd (SetState (Some 0) True shared_target_pins)) 1) = True \<and>
   value_f (heap (snd (SetState (Some 0) True shared_target_pins)) 2) = True"
  by (simp add: shared_target_pins_def ConnectTo_heap example_defs IN_def OUT_def Let_def)

text \<open>
  Claim C5, as the code has it. \<open>FakeInput\<close> on an input pin \<open>t\<close> writes the cached
  state of \<open>t\<close> and nothing else in the heap, whatever \<open>t\<close> is wired to. So when an
  output \<open>p\<close> whose targets are all inputs is driven, and \<open>t\<close> is one of the targets
  and is itself wired to the pins \<open>tconn\<close>, the call returns normally, \<open>t\<close> holds the
  new value, and every pin of \<open>tconn\<close> that is neither \<open>p\<close> nor a direct target of
  \<open>p\<close> is as before.
\<close>

theorem propagation_does_not_cascade:
  assumes "dir (heap w p) = OUT" and "connectedTo (heap w p) = Some conn"
    and "Some t \<in> set conn" and "\<forall>x. Some x \<in> set conn \<longrightarrow> dir (heap w x) = IN"
    and "connectedTo (heap w t) = Some tconn"
  shows "heap (snd (FakeInput (Some t) v w)) = (heap w)(t := (heap w t)\<lparr>value_f := v\<rparr>) \<and>
         fst (SetState (Some p) v w) = Inr None \<and>
         value_f (heap (snd (SetState (Some p) v w)) t) = v \<and>
         (\<forall>u. Some u \<in> set tconn \<and> u \<noteq> p \<and> Some u \<notin> set conn \<longrightarrow>
              heap (snd (SetState (Some p) v w)) u = heap w u)"
proof -
  have dirs: "\<And>x. Some x \<in> set conn \<Longrightarrow> dir (heap w x) = IN"
    using assms(4) by blast
  have a: "heap (snd (FakeInput (Some t) v w)) = (heap w)(t := (heap w t)\<lparr>value_f := v\<rparr>)"
    using dirs [OF assms(3)] by simp
  have b: "fst (SetState (Some p) v w) = Inr None"
    using SetState_wired(1) [OF assms(1,2) dirs] by blast
  have c: "value_f (heap (snd (SetState (Some p) v w)) t) = v"
    using SetState_wired(2) [OF assms(1,2) dirs assms(3)] by blast
  have d: "\<And>u. u \<noteq> p \<Longrightarrow> Some u \<notin> set conn \<Longrightarrow>
             heap (snd (SetState (Some p) v w)) u = heap w u"
    using SetState_frame [of _ p w v] assms(2) by simp
  show ?thesis using a b c d by blast
qed

theorem propagation_does_not_cascade_witness:
  "dir (heap relay_pins 0) = OUT \<and> connectedTo (heap relay_pins 0) = Some [Some 1] \<and>
   dir (heap relay_pins 1) = IN \<and> connectedTo (heap relay_pins 1) = Some [Some 2] \<and>
   fst (SetState (Some 0) True relay_pins) = Inr None \<and>
   value_f (heap (snd (SetState (Some 0) True relay_pins)) 1) = True \<and>
   value_f (heap relay_pins 2) = False \<and>
   heap (snd (SetState (Some 0) True relay_pins)) 2 = heap relay_pins 2"
proof -
  have h1: "dir (heap relay_pins 0) = OUT"
    by (simp add: relay_pins_def ConnectTo_heap example_defs)
  have h2: "connectedTo (heap relay_pins 0) = Some [Some 1]"
    by (simp add: relay_pins_def ConnectTo_heap example_defs)
  have h3: "Some 1 \<in> set [Some (1::nat)]" by simp
  have d1: "dir (heap relay_pins 1) = IN"
    by (simp add: relay_pins_def ConnectTo_heap example_defs)
  have h4: "\<forall>x. Some x \<in> set [Some 1] \<longrightarrow> dir (heap relay_pins x) = IN"
    using d1 by simp
  have h5: "connectedTo (heap relay_pins 1) = Some [Some 2]"
    by (simp add: relay_pins_def ConnectTo_heap example_defs)
  have v: "value_f (heap relay_pins 2) = False"
    by (simp add: relay_pins_def ConnectTo_heap example_defs)
  show ?thesis
    using h1 h2 d1 h5 v propagation_does_not_cascade [OF h1 h2 h3 h4 h5, of True] by simp
qed

subsection \<open>Wiring again\<close>

text \<open>
  Claim C6. Let \<open>p\<close> be an output pin and \<open>a\<close> an input pin. After \<open>p.ConnectTo(a)\<close>
  and then \<open>p.ConnectTo()\<close> (the nil slice; an empty slice does the same), \<open>p\<close> is wired
  to nothing, and \<open>p.SetState(true)\<close> returns normally, sets the state of \<open>p\<close> and
  leaves \<open>a\<close> as it was before the first wiring.
\<close>

theorem rewiring_replaces_targets:
  assumes "dir (heap w p) = OUT" and "dir (heap w a) = IN"
    and "conn = None \<or> conn = Some []"
  shows "let w1 = snd (ConnectTo (Some p) (Some [Some a]) w);
             w2 = snd (ConnectTo (Some p) conn w1);
             driven = SetState (Some p) True w2
         in connectedTo (heap w1 p) = Some [Some a] \<and>
            connectedTo (heap w2 p) = conn \<and>
            fst driven = Inr None \<and>
            value_f (heap (snd driven) p) = True \<and>
            heap (snd driven) a = heap w a"
proof -
  let ?w1 = "snd (ConnectTo (Some p) (Some [Some a]) w)"
  let ?w2 = "snd (ConnectTo (Some p) conn ?w1)"
  have ne: "a \<noteq> p" using assms(1,2) IN_neq_OUT by auto
  have c1: "connectedTo (heap ?w1 p) = Some [Some a]"
    by (simp only: ConnectTo_heap) simp
  have c2: "connectedTo (heap ?w2 p) = conn"
    by (simp only: ConnectTo_heap) simp
  have d2: "dir (heap ?w2 p) = OUT"
    using assms(1) by (simp only: ConnectTo_heap) simp
  have a2: "heap ?w2 a = heap w a"
    using ne by (simp only: ConnectTo_heap) simp
  have un: "connectedTo (heap ?w2 p) = None \<or> connectedTo (heap ?w2 p) = Some []"
    using c2 assms(3) by simp
  have dr: "SetState (Some p) True ?w2 =
              (Inr None, set_value p True (log p ''set to state >%+v<'' [ABool True] ?w2))"
    by (rule SetState_unwired [OF d2 un])
  have v: "value_f (heap (snd (SetState (Some p) True ?w2)) p) = True"
    by (simp only: dr snd_conv heap_set_value heap_log) simp
  have f: "heap (snd (SetState (Some p) True ?w2)) a = heap w a"
    using ne a2 by (simp only: dr snd_conv heap_set_value heap_log) simp
  have r: "fst (SetState (Some p) True ?w2) = Inr None"
    by (simp only: dr fst_conv)
  show ?thesis unfolding Let_def using c1 c2 r v f by blast
qed

theorem rewiring_replaces_targets_witness:
  "dir (heap three_pins 0) = OUT \<and> dir (heap three_pins 1) = IN \<and>
   (let w1 = snd (ConnectTo (Some 0) (Some [Some 1]) three_pins);
        w2 = snd (ConnectTo (Some 0) None w1);
        driven = SetState (Some 0) True w2
    in connectedTo (heap w1 0) = Some [Some 1] \<and>
       connectedTo (heap w2 0) = None \<and>
       fst driven = Inr None \<and>
       value_f (heap (snd driven) 0) = True \<and>
       heap (snd driven) 1 = heap three_pins 1)"
proof -
  have h0: "dir (heap three_pins 0) = OUT" by (simp add: example_defs)
  have h1: "dir (heap three_pins 1) = IN" by (simp add: example_defs)
  have h2: "(None :: addr option list option) = None \<or> None = Some []" by simp
  show ?thesis using h0 h1 rewiring_replaces_targets [OF h0 h1 h2] by simp
qed

subsection \<open>A new pin\<close>

text \<open>
  Claim C9. A pin made by \<open>NewFakeNamedGPIO\<close> or \<open>NewFakeGPIO\<close> is not nil, reads
  false by \<open>GetState\<close> and has the nil slice as its targets; if it was made an output,
  driving it returns normally, sets its own state and changes no other pin.
\<close>

theorem fresh_pin_is_low_and_unwired:
  assumes "NewFakeNamedGPIO nm d lt w = (gpio, w') \<or> NewFakeGPIO n d w = (gpio, w')"
  shows "GetState gpio w' = Inr (False, None) \<and>
         (\<exists>p. gpio = Some p \<and> connectedTo (heap w' p) = None \<and>
              (d = OUT \<longrightarrow>
                 fst (SetState gpio s w') = Inr None \<and>
                 value_f (heap (snd (SetState gpio s w')) p) = s \<and>
                 (\<forall>q. q \<noteq> p \<longrightarrow> heap (snd (SetState gpio s w')) q = heap w' q)))"
  using assms by (auto simp add: NewFakeNamedGPIO_def NewFakeGPIO_def Let_def)

theorem fresh_pin_is_low_and_unwired_witness:
  "NewFakeGPIO 7 OUT no_pins = (Some 0, snd (NewFakeGPIO 7 OUT no_pins)) \<and>
   GetState (Some 0) (snd (NewFakeGPIO 7 OUT no_pins)) = Inr (False, None) \<and>
   connectedTo (heap (snd (NewFakeGPIO 7 OUT no_pins)) 0) = None \<and>
   fst (SetState (Some 0) True (snd (NewFakeGPIO 7 OUT no_pins))) = Inr None \<and>
   heap (snd (SetState (Some 0) True (snd (NewFakeGPIO 7 OUT no_pins)))) 1 =
     heap (snd (NewFakeGPIO 7 OUT no_pins)) 1"
proof -
  have h: "NewFakeGPIO 7 OUT no_pins = (Some 0, snd (NewFakeGPIO 7 OUT no_pins))"
    by (simp add: example_defs)
  have h': "NewFakeNamedGPIO [] OUT None no_pins = (Some 0, snd (NewFakeGPIO 7 OUT no_pins)) \<or>
            NewFakeGPIO 7 OUT no_pins = (Some 0, snd (NewFakeGPIO 7 OUT no_pins))"
    using h by simp
  show ?thesis
    using h fresh_pin_is_low_and_unwired [OF h', of True] by simp
qed

subsection \<open>Close\<close>

text \<open>
  Claim C10. \<open>Close\<close> on a virtual pin changes nothing: the state after it is the state
  before it (names, directions, cached states and wiring of all pins), and every later
  call of \<open>GetState\<close>, \<open>CheckDirection\<close>, \<open>SetState\<close>, \<open>FakeInput\<close> or
  \<open>ConnectTo\<close> on the pin gives what it would have given without the \<open>Close\<close>.
\<close>

theorem Close_changes_nothing:
  "Close gpio w = w \<and>
   GetState gpio (Close gpio w) = GetState gpio w \<and>
   CheckDirection gpio (Close gpio w) = CheckDirection gpio w \<and>
   SetState gpio s (Close gpio w) = SetState gpio s w \<and>
   FakeInput gpio s (Close gpio w) = FakeInput gpio s w \<and>
   ConnectTo gpio conn (Close gpio w) = ConnectTo gpio conn w"
  by (simp add: Close_def Let_def)

theorem Close_changes_nothing_witness:
  "Close (Some 0) three_pins = three_pins \<and>
   GetState (Some 0) (Close (Some 0) three_pins) = Inr (False, None) \<and>
   SetState (Some 0) True (Close (Some 0) three_pins) = SetState (Some 0) True three_pins"
proof -
  have g: "GetState (Some 0) three_pins = Inr (False, None)" by (simp add: example_defs)
  show ?thesis using g Close_changes_nothing [of "Some 0" three_pins True None] by simp
qed

subsection \<open>Wiring an output to an output\<close>

text \<open>
  \<open>ConnectTo\<close> with a target that is an output: among the two outputs \<open>p\<close> (address 0)
  and \<open>q\<close> (address 1), \<open>p.ConnectTo(q)\<close> returns normally, stores the target and logs
  it as \<open>q(OUT)\<close>. So the call does not fail at wire time.
\<close>

theorem ConnectTo_accepts_output_target:
  "dir (heap two_outputs 1) = OUT \<and> dir (heap two_outputs 1) \<noteq> IN \<and>
   ConnectTo (Some 0) (Some [Some 1]) two_outputs =
     (Inr (),
      two_outputs\<lparr>heap := (heap two_outputs)(0 := (heap two_outputs 0)\<lparr>connectedTo := Some [Some 1]\<rparr>),
                  printed := [(FakeGPIODefaultLogTarget,
                               ''FakeGPIO %s(%s): now connected to q(OUT)'',
                               [AString ''p'', AString ''OUT''])]\<rparr>)"
  by (simp add: two_outputs_def NewFakeNamedGPIO_def no_pins_def IN_def OUT_def Let_def
      log_def set_connectedTo_def dir_text_def ConnectTo.simps)

text \<open>
  Claim C1, as the code has it. \<open>ConnectTo\<close> checks no direction: on a non-nil pin it
  always returns normally and stores the target list it was given, changing nothing
  else of any pin; wiring input targets only succeeds in particular. A target whose
  direction is not \<open>IN\<close> is found at drive time: when the source is an output,
  \<open>SetState\<close> on it panics with "tried to fake input for output gpio".
\<close>

theorem ConnectTo_stores_any_targets:
  "fst (ConnectTo (Some p) conn w) = Inr () \<and>
   heap (snd (ConnectTo (Some p) conn w)) = (heap w)(p := (heap w p)\<lparr>connectedTo := conn\<rparr>) \<and>
   (\<forall>ts t. conn = Some ts \<and> Some t \<in> set ts \<and> dir (heap w t) \<noteq> IN \<and> dir (heap w p) = OUT \<longrightarrow>
      fst (SetState (Some p) s (snd (ConnectTo (Some p) conn w))) =
        Inl (Panic ''tried to fake input for output gpio''))"
proof -
  let ?w1 = "snd (ConnectTo (Some p) conn w)"
  have h: "heap ?w1 = (heap w)(p := (heap w p)\<lparr>connectedTo := conn\<rparr>)"
    by (rule ConnectTo_heap)
  have "fst (SetState (Some p) s ?w1) = Inl (Panic ''tried to fake input for output gpio'')"
    if c: "conn = Some ts" and t: "Some t \<in> set ts" and nt: "dir (heap w t) \<noteq> IN"
      and po: "dir (heap w p) = OUT" for ts t
  proof -
    let ?w2 = "set_value p s (log p ''set to state >%+v<'' [ABool s] ?w1)"
    have d1: "dir (heap ?w1 p) = OUT" using po by (simp add: ConnectTo_heap)
    have c1: "connectedTo (heap ?w1 p) = Some ts" using c by (simp add: ConnectTo_heap)
    have eq: "SetState (Some p) s ?w1 = SetState_range ts s ?w2"
      using SetState_OUT [OF d1, of s] c1 by simp
    have nt2: "dir (heap ?w2 t) \<noteq> IN" using nt by (auto simp add: ConnectTo_heap)
    show ?thesis using SetState_range_panic [OF t nt2, of s] eq by simp
  qed
  then show ?thesis using h ConnectTo_returns [of p conn w] by blast
qed

theorem ConnectTo_stores_any_targets_witness:
  "dir (heap two_outputs 0) = OUT \<and> dir (heap two_outputs 1) \<noteq> IN \<and>
   fst (ConnectTo (Some 0) (Some [Some 1]) two_outputs) = Inr () \<and>
   fst (SetState (Some 0) True (snd (ConnectTo (Some 0) (Some [Some 1]) two_outputs))) =
     Inl (Panic ''tried to fake input for output gpio'')"
proof -
  have h0: "dir (heap two_outputs 0) = OUT" by (simp add: example_defs)
  have h1: "dir (heap two_outputs 1) \<noteq> IN" using IN_neq_OUT by (simp add: example_defs)
  show ?thesis
    using h0 h1 ConnectTo_stores_any_targets [of 0 "Some [Some 1]" two_outputs True] by simp
qed

section \<open>Properties of the control-file code\<close>

lemmas file_defs = pin7_files_def nothing_exported_def pin7_def gpio_path_def export_path_def

lemma dec_7: "dec 7 = ''7''"
  by (simp add: dec.simps digit_def)

subsection \<open>Exporting a pin\<close>

text \<open>
  Claim C8. When the directory of the pin exists (\<open>os.Stat\<close> gives no error),
  \<open>enable_export\<close> returns nil and has written nothing: an exported pin is no
  error. A write is issued only when \<open>os.Stat\<close> says that the directory does not exist;
  then, the export file opening, the one write is that of the pin number in decimal and
  a newline to the export file, and the error returned is that of the write.
\<close>

theorem enable_export_skips_exported_pin:
  "(stat_res fs (gpio_path (Number gpio)) = None \<longrightarrow>
      enable_export (Some gpio) fs = (Inr None, fs)) \<and>
   (writes (snd (enable_export (Some gpio) fs)) \<noteq> writes fs \<longrightarrow>
      (\<exists>err. stat_res fs (gpio_path (Number gpio)) = Some err \<and> IsNotExist err)) \<and>
   (stat_res fs (gpio_path (Number gpio)) = Some ENOENT \<and> open_res fs export_path = None \<longrightarrow>
      enable_export (Some gpio) fs =
        (Inr (write_res fs export_path (dec (Number gpio) @ [CHR 0x0A])),
         fs\<lparr>writes := writes fs @ [(export_path, dec (Number gpio) @ [CHR 0x0A])]\<rparr>))"
  by (auto simp add: Let_def split: option.splits if_splits)

theorem enable_export_skips_exported_pin_witness:
  "stat_res (pin7_files ''in'' ''none'' ''0'') (gpio_path (Number pin7)) = None \<and>
   enable_export (Some pin7) (pin7_files ''in'' ''none'' ''0'') =
     (Inr None, pin7_files ''in'' ''none'' ''0'') \<and>
   stat_res nothing_exported (gpio_path (Number pin7)) = Some ENOENT \<and>
   open_res nothing_exported export_path = None \<and>
   enable_export (Some pin7) nothing_exported =
     (Inr None, nothing_exported\<lparr>writes := [(''/sys/class/gpio/export'', ''7'' @ [CHR 0x0A])]\<rparr>)"
proof -
  have a: "stat_res (pin7_files ''in'' ''none'' ''0'') (gpio_path (Number pin7)) = None"
    by (simp add: file_defs)
  have b: "stat_res nothing_exported (gpio_path (Number pin7)) = Some ENOENT"
    by (simp add: file_defs)
  have c: "open_res nothing_exported export_path = None"
    by (simp add: file_defs)
  have d: "writes nothing_exported = []" "write_res nothing_exported = (\<lambda>path line. None)"
    "Number pin7 = 7" "export_path = ''/sys/class/gpio/export''"
    by (simp_all add: file_defs)
  show ?thesis
    using a b c enable_export_skips_exported_pin [of "pin7_files ''in'' ''none'' ''0''" pin7]
      enable_export_skips_exported_pin [of nothing_exported pin7]
    by (simp add: d dec_7)
qed

subsection \<open>Attaching the edge monitor\<close>

lemma Read16_take:
  assumes "k \<le> 16" and "k \<le> length bytes"
  shows "\<exists>n buf. Read16 (Inr bytes) = (n, None, buf) \<and> take k buf = take k bytes \<and> k \<le> n"
  using assms by (simp add: min_def)

lemma GetEdge_none:
  assumes "open_res fs (gpio_path (Number gpio) @ ''/edge'') = None"
    and "read_res fs (gpio_path (Number gpio) @ ''/edge'') = Inr bytes"
    and "take 4 bytes = ''none''"
  shows "GetEdge (Some gpio) fs = Inr (''none'', None)"
proof -
  have "length (take 4 bytes) = 4" using assms(3) by simp
  then have len: "4 \<le> length bytes" by simp
  obtain n buf where r: "Read16 (Inr bytes) = (n, None, buf)"
    and t: "take 4 buf = take 4 bytes" and n: "4 \<le> n"
    using Read16_take [of 4 bytes] len by auto
  show ?thesis using assms r t n by (simp add: Let_def del: Read16.simps)
qed

lemma GetEdge_same_edge_file:
  assumes "open_res fs (gpio_path (Number gpio) @ ''/edge'') =
           open_res fs' (gpio_path (Number gpio) @ ''/edge'')"
    and "read_res fs (gpio_path (Number gpio) @ ''/edge'') =
         read_res fs' (gpio_path (Number gpio) @ ''/edge'')"
  shows "GetEdge (Some gpio) fs = GetEdge (Some gpio) fs'"
  by (simp only: GetEdge.simps Let_def assms)

text \<open>
  Pin 7 with the direction file reading "out" and the edge file reading "rising":
  \<open>CheckDirection\<close> gives \<open>OUT\<close>, and \<open>SetEdgeCallback\<close> returns nil with the
  background task started. So a direction other than INPUT gives no error.
\<close>

theorem SetEdgeCallback_ignores_direction:
  "SysfsGPIO_CheckDirection (Some pin7) (pin7_files ''out'' ''rising'' ''1'') = Inr (OUT, None) \<and>
   SetEdgeCallback (Some pin7) (pin7_files ''out'' ''rising'' ''1'') = Inr (None, True)"
  by (simp add: file_defs dec_7 Let_def)

text \<open>
  Claim C2, as the code has it. \<open>SetEdgeCallback\<close> looks at the edge mode only. When
  the edge file reads "none" the call returns the error "Edge value is set to NONE" and
  no background task is started. In every case the task is started exactly when no
  error is returned, which is exactly when \<open>GetEdge\<close> succeeds with a mode other
  than "none". The direction of the pin is not read: two states of the control files in
  which the edge file opens and reads alike give the same result.
\<close>

theorem SetEdgeCallback_checks_edge_only:
  "(\<forall>bytes. open_res fs (gpio_path (Number gpio) @ ''/edge'') = None \<and>
            read_res fs (gpio_path (Number gpio) @ ''/edge'') = Inr bytes \<and>
            take 4 bytes = ''none'' \<longrightarrow>
      SetEdgeCallback (Some gpio) fs =
        Inr (Some (ErrorsNew ''Edge value is set to NONE''), False)) \<and>
   (\<exists>err started. SetEdgeCallback (Some gpio) fs = Inr (err, started) \<and>
      started = (err = None) \<and>
      started = (\<exists>edge. GetEdge (Some gpio) fs = Inr (edge, None) \<and> edge \<noteq> ''none'')) \<and>
   (\<forall>fs'. open_res fs' (gpio_path (Number gpio) @ ''/edge'') =
            open_res fs (gpio_path (Number gpio) @ ''/edge'') \<and>
          read_res fs' (gpio_path (Number gpio) @ ''/edge'') =
            read_res fs (gpio_path (Number gpio) @ ''/edge'') \<longrightarrow>
      SetEdgeCallback (Some gpio) fs' = SetEdgeCallback (Some gpio) fs)"
proof -
  have a: "SetEdgeCallback (Some gpio) fs =
             Inr (Some (ErrorsNew ''Edge value is set to NONE''), False)"
    if "open_res fs (gpio_path (Number gpio) @ ''/edge'') = None"
      and "read_res fs (gpio_path (Number gpio) @ ''/edge'') = Inr bytes"
      and "take 4 bytes = ''none''" for bytes
    using GetEdge_none [OF that] by (simp del: GetEdge.simps)
  obtain edge ge where g: "GetEdge (Some gpio) fs = Inr (edge, ge)"
    by (cases "GetEdge (Some gpio) fs")
       (auto simp add: Let_def split: option.splits prod.splits if_splits)
  have b: "\<exists>err started. SetEdgeCallback (Some gpio) fs = Inr (err, started) \<and>
      started = (err = None) \<and>
      started = (\<exists>edge. GetEdge (Some gpio) fs = Inr (edge, None) \<and> edge \<noteq> ''none'')"
    using g by (cases ge) (simp_all del: GetEdge.simps)
  have c: "SetEdgeCallback (Some gpio) fs' = SetEdgeCallback (Some gpio) fs"
    if "open_res fs' (gpio_path (Number gpio) @ ''/edge'') =
          open_res fs (gpio_path (Number gpio) @ ''/edge'')"
      and "read_res fs' (gpio_path (Number gpio) @ ''/edge'') =
          read_res fs (gpio_path (Number gpio) @ ''/edge'')" for fs'
    using GetEdge_same_edge_file [OF that] by (simp del: GetEdge.simps)
  show ?thesis using a b c by blast
qed

theorem SetEdgeCallback_checks_edge_only_witness:
  "SetEdgeCallback (Some pin7) (pin7_files ''in'' ''none'' ''0'') =
     Inr (Some (ErrorsNew ''Edge value is set to NONE''), False) \<and>
   SetEdgeCallback (Some pin7) (pin7_files ''out'' ''none'' ''0'') =
     SetEdgeCallback (Some pin7) (pin7_files ''in'' ''none'' ''0'')"
proof -
  have o: "open_res (pin7_files ''in'' ''none'' ''0'') (gpio_path (Number pin7) @ ''/edge'') = None"
    by (simp add: file_defs)
  have r: "read_res (pin7_files ''in'' ''none'' ''0'') (gpio_path (Number pin7) @ ''/edge'') =
             Inr (''none'' @ [CHR 0x0A])"
    by (simp add: file_defs dec_7)
  have o': "open_res (pin7_files ''out'' ''none'' ''0'') (gpio_path (Number pin7) @ ''/edge'') = None"
    by (simp add: file_defs)
  have r': "read_res (pin7_files ''out'' ''none'' ''0'') (gpio_path (Number pin7) @ ''/edge'') =
             Inr (''none'' @ [CHR 0x0A])"
    by (simp add: file_defs dec_7)
  have t: "take 4 (''none'' @ [CHR 0x0A]) = ''none''" by simp
  note th = SetEdgeCallback_checks_edge_only [of "pin7_files ''in'' ''none'' ''0''" pin7]
  have 1: "SetEdgeCallback (Some pin7) (pin7_files ''in'' ''none'' ''0'') =
             Inr (Some (ErrorsNew ''Edge value is set to NONE''), False)"
    using th o r t by blast
  have 2: "SetEdgeCallback (Some pin7) (pin7_files ''out'' ''none'' ''0'') =
           SetEdgeCallback (Some pin7) (pin7_files ''in'' ''none'' ''0'')"
    using th o r o' r' by metis
  show ?thesis using 1 2 by simp
qed

subsection \<open>The polling loop\<close>







end
